theory Spec2Isabelle
  imports Main
begin

section \<open>JavaScript values\<close>

text \<open>
  The fetch layer is untyped JavaScript, so its data is modelled by one type of values.
  Numbers are the integers and NaN (exact for magnitudes below 2^53; fractions and the
  infinities are outside the model). An object is the list of its own enumerable
  properties in enumeration order; properties inherited from a prototype are not
  modelled, and none of the property names the code reads is such a name.
\<close>

datatype jsnum = NaN | Fin int

datatype jsval =
    JUndefined
  | JNull
  | JBool bool
  | JNum jsnum
  | JStr string
  | JArr "jsval list"
  | JObj "(string \<times> jsval) list"

datatype error = TypeError string | Thrown jsval

text \<open>ToBoolean: what \<open>!!v\<close>, \<open>v || d\<close> and \<open>if (v)\<close> test.\<close>

fun truthy :: "jsval \<Rightarrow> bool" where
  "truthy JUndefined = False"
| "truthy JNull = False"
| "truthy (JBool b) = b"
| "truthy (JNum NaN) = False"
| "truthy (JNum (Fin n)) = (n \<noteq> 0)"
| "truthy (JStr s) = (s \<noteq> [])"
| "truthy (JArr xs) = True"
| "truthy (JObj kvs) = True"

fun nullish :: "jsval \<Rightarrow> bool" where
  "nullish JUndefined = True"
| "nullish JNull = True"
| "nullish v = False"

subsection \<open>Decimal numerals\<close>

definition digitChar :: "nat \<Rightarrow> char" where
  "digitChar n = ''0123456789'' ! n"

fun showNat :: "nat \<Rightarrow> string" where
  "showNat n = (if n < 10 then [digitChar n] else showNat (n div 10) @ [digitChar (n mod 10)])"

declare showNat.simps [simp del]

definition showInt :: "int \<Rightarrow> string" where
  "showInt i = (if i < 0 then CHR ''-'' # showNat (nat (- i)) else showNat (nat i))"

definition isDigit :: "char \<Rightarrow> bool" where
  "isDigit c = (c \<in> set ''0123456789'')"

definition digitVal :: "char \<Rightarrow> nat" where
  "digitVal c = (if isDigit c then of_char c - 48
     else if c \<in> set ''abcdefghijklmnopqrstuvwxyz'' then of_char c - 87
     else if c \<in> set ''ABCDEFGHIJKLMNOPQRSTUVWXYZ'' then of_char c - 55
     else 36)"

text \<open>
  A property key that is a canonical array index (\<open>"0"\<close>, \<open>"17"\<close>; not \<open>"01"\<close>).
\<close>

definition arrayIndex :: "string \<Rightarrow> nat option" where
  "arrayIndex k =
     (if k \<noteq> [] \<and> list_all isDigit k \<and> (k = ''0'' \<or> hd k \<noteq> CHR ''0'')
      then Some (foldl (\<lambda>a c. a * 10 + digitVal c) 0 k) else None)"

subsection \<open>Reading properties\<close>

text \<open>
  \<open>getProp v k\<close> is \<open>v[k]\<close> for a value that is neither null nor undefined: an own
  property of an object, an element or the length of an array, a character or the
  length of a string; \<open>undefined\<close> otherwise.
\<close>

fun getProp :: "jsval \<Rightarrow> string \<Rightarrow> jsval" where
  "getProp (JObj kvs) k = (case map_of kvs k of Some v \<Rightarrow> v | None \<Rightarrow> JUndefined)"
| "getProp (JArr xs) k =
     (if k = ''length'' then JNum (Fin (int (length xs)))
      else case arrayIndex k of
             Some i \<Rightarrow> (if i < length xs then xs ! i else JUndefined)
           | None \<Rightarrow> JUndefined)"
| "getProp (JStr s) k =
     (if k = ''length'' then JNum (Fin (int (length s)))
      else case arrayIndex k of
             Some i \<Rightarrow> (if i < length s then JStr [s ! i] else JUndefined)
           | None \<Rightarrow> JUndefined)"
| "getProp v k = JUndefined"

text \<open>
  A property read either guards its receiver (\<open>v?.k\<close>, which yields \<open>undefined\<close> on
  null and undefined) or does not (\<open>v.k\<close>, which throws a TypeError there).
\<close>

definition readProp :: "bool \<Rightarrow> jsval \<Rightarrow> string \<Rightarrow> error + jsval" where
  "readProp optional v k =
     (if nullish v
      then (if optional then Inr JUndefined
            else Inl (TypeError (''Cannot read properties of null or undefined: '' @ k)))
      else Inr (getProp v k))"

definition bind :: "error + 'a \<Rightarrow> ('a \<Rightarrow> error + 'b) \<Rightarrow> error + 'b" where
  "bind m f = (case m of Inl e \<Rightarrow> Inl e | Inr x \<Rightarrow> f x)"

section \<open>QueryFetch: feature negotiation\<close>

record features =
  supportsPagination :: bool

text \<open>\<open>definition?.fields?.pagination?.[k]\<close>\<close>

definition paginationField :: "jsval \<Rightarrow> string \<Rightarrow> error + jsval" where
  "paginationField definition k =
     bind (readProp True definition ''fields'') (\<lambda>fs.
     bind (readProp True fs ''pagination'') (\<lambda>pg.
     readProp True pg k))"

text \<open>
  \<open>determineFeatureFlags\<close>: the three operands of \<open>&&\<close> are evaluated left to right and
  the evaluation stops at the first falsy one.
\<close>

definition determineFeatureFlags :: "jsval \<Rightarrow> error + features" where
  "determineFeatureFlags definition =
     bind (paginationField definition ''type'') (\<lambda>t.
       if \<not> truthy t then Inr \<lparr>supportsPagination = False\<rparr>
       else bind (paginationField definition ''location'') (\<lambda>l.
         if \<not> truthy l then Inr \<lparr>supportsPagination = False\<rparr>
         else bind (paginationField definition ''pageParam'') (\<lambda>p.
           Inr \<lparr>supportsPagination = truthy p\<rparr>)))"

text \<open>
  What the specification calls a declared entry of the pagination metadata: the
  definition is an object with an object \<open>fields\<close>, which has an object \<open>pagination\<close>,
  which has the key with a value that is not empty (not \<open>undefined\<close>, \<open>null\<close>, \<open>""\<close>,
  \<open>0\<close>, NaN or \<open>false\<close>). Written from the specification, by the shape of the data, to be
  compared with the property reads of the source.
\<close>

fun ownField :: "jsval \<Rightarrow> string \<Rightarrow> jsval option" where
  "ownField (JObj kvs) k = map_of kvs k"
| "ownField v k = None"

definition spec_declares :: "jsval \<Rightarrow> string \<Rightarrow> bool" where
  "spec_declares definition k =
     (case ownField definition ''fields'' of
        None \<Rightarrow> False
      | Some fs \<Rightarrow>
         (case ownField fs ''pagination'' of
            None \<Rightarrow> False
          | Some pg \<Rightarrow>
             (case ownField pg k of None \<Rightarrow> False | Some v \<Rightarrow> truthy v)))"

section \<open>Strings and numbers\<close>

text \<open>
  ToString, as template literals, \<open>parseInt\<close> and \<open>+\<close> apply it. An array prints its
  elements separated by commas, null and undefined elements as the empty string.
\<close>

fun toStr :: "jsval \<Rightarrow> string" and joinElems :: "jsval list \<Rightarrow> string" where
  "toStr JUndefined = ''undefined''"
| "toStr JNull = ''null''"
| "toStr (JBool b) = (if b then ''true'' else ''false'')"
| "toStr (JNum NaN) = ''NaN''"
| "toStr (JNum (Fin n)) = showInt n"
| "toStr (JStr s) = s"
| "toStr (JArr xs) = joinElems xs"
| "toStr (JObj kvs) = ''[object Object]''"
| "joinElems [] = []"
| "joinElems [x] = (if nullish x then [] else toStr x)"
| "joinElems (x # y # ys) = (if nullish x then [] else toStr x) @ '','' @ joinElems (y # ys)"

definition isWhitespace :: "char \<Rightarrow> bool" where
  "isWhitespace c = (c \<in> set [CHR '' '', CHR 0x09, CHR 0x0A, CHR 0x0B, CHR 0x0C, CHR 0x0D])"

text \<open>
  \<open>parseInt(v)\<close> with no radix: the string of \<open>v\<close>, leading white space skipped, an
  optional sign, the prefix \<open>0x\<close> selecting radix 16, then the longest run of digits;
  NaN when that run is empty.
\<close>

definition parseIntStr :: "string \<Rightarrow> jsnum" where
  "parseIntStr s =
     (let s1 = dropWhile isWhitespace s;
          neg = (s1 \<noteq> [] \<and> hd s1 = CHR ''-'');
          s2 = (if s1 \<noteq> [] \<and> (hd s1 = CHR ''-'' \<or> hd s1 = CHR ''+'') then tl s1 else s1);
          hex = (take 2 s2 = ''0x'' \<or> take 2 s2 = ''0X'');
          radix = (if hex then 16 else 10);
          s3 = (if hex then drop 2 s2 else s2);
          ds = takeWhile (\<lambda>c. digitVal c < radix) s3;
          n = int (foldl (\<lambda>a c. a * radix + digitVal c) 0 ds)
      in if ds = [] then NaN else Fin (if neg then - n else n))"

definition parseInt :: "jsval \<Rightarrow> jsnum" where
  "parseInt v = parseIntStr (toStr v)"

fun numAdd :: "jsnum \<Rightarrow> jsnum \<Rightarrow> jsnum" where
  "numAdd (Fin a) (Fin b) = Fin (a + b)"
| "numAdd a b = NaN"

fun numSub :: "jsnum \<Rightarrow> jsnum \<Rightarrow> jsnum" where
  "numSub (Fin a) (Fin b) = Fin (a - b)"
| "numSub a b = NaN"

fun numMul :: "jsnum \<Rightarrow> jsnum \<Rightarrow> jsnum" where
  "numMul (Fin a) (Fin b) = Fin (a * b)"
| "numMul a b = NaN"

text \<open>Comparisons with NaN are false.\<close>

fun numLe :: "jsnum \<Rightarrow> jsnum \<Rightarrow> bool" where
  "numLe (Fin a) (Fin b) = (a \<le> b)"
| "numLe a b = False"

fun numGt :: "jsnum \<Rightarrow> jsnum \<Rightarrow> bool" where
  "numGt (Fin a) (Fin b) = (a > b)"
| "numGt a b = False"

text \<open>
  The operator \<open>+\<close>: when an operand is a string, or an array or object (whose primitive
  is its string), the strings are concatenated; otherwise the numbers are added, with
  \<open>undefined\<close> as NaN, \<open>null\<close> and \<open>false\<close> as 0 and \<open>true\<close> as 1.
\<close>

fun addsAsString :: "jsval \<Rightarrow> bool" where
  "addsAsString (JStr s) = True"
| "addsAsString (JArr xs) = True"
| "addsAsString (JObj kvs) = True"
| "addsAsString v = False"

fun toNumber :: "jsval \<Rightarrow> jsnum" where
  "toNumber (JNum n) = n"
| "toNumber JNull = Fin 0"
| "toNumber (JBool b) = Fin (if b then 1 else 0)"
| "toNumber v = NaN"

definition jsPlus :: "jsval \<Rightarrow> jsval \<Rightarrow> jsval" where
  "jsPlus a b =
     (if addsAsString a \<or> addsAsString b then JStr (toStr a @ toStr b)
      else JNum (numAdd (toNumber a) (toNumber b)))"

text \<open>
  The own enumerable properties of a value that is neither null nor undefined, as
  \<open>Object.entries\<close> lists them and as a rest pattern or a spread copies them.
\<close>

fun ownEntries :: "jsval \<Rightarrow> (string \<times> jsval) list" where
  "ownEntries (JObj kvs) = kvs"
| "ownEntries (JArr xs) = zip (map showNat [0..<length xs]) xs"
| "ownEntries (JStr s) = zip (map showNat [0..<length s]) (map (\<lambda>c. JStr [c]) s)"
| "ownEntries v = []"

text \<open>Assignment \<open>obj[k] = v\<close> on a plain object: in place, or appended as a new key.\<close>

fun setKey :: "(string \<times> jsval) list \<Rightarrow> string \<Rightarrow> jsval \<Rightarrow> (string \<times> jsval) list" where
  "setKey [] k v = [(k, v)]"
| "setKey (p # ps) k v = (if fst p = k then (k, v) # ps else p # setKey ps k v)"

definition lookupKey :: "(string \<times> jsval) list \<Rightarrow> string \<Rightarrow> jsval" where
  "lookupKey kvs k = (case map_of kvs k of Some v \<Rightarrow> v | None \<Rightarrow> JUndefined)"

section \<open>QueryFetch: fetching a page\<close>

text \<open>
  The datasource of a query fetch: an identifier, the static query parameters (an
  object, or absent) and the parameter list with defaults (an array, or absent).
\<close>

record param =
  param_name :: string
  param_default :: jsval

record datasource =
  ds_id :: jsval
  queryParams :: "(string \<times> jsval) list option"
  parameters :: "param list option"

text \<open>
  What \<open>getData\<close> reads from the instance: \<open>this.options\<close> (datasource, limit,
  paginate), \<open>this.features\<close> and the store (cursor, definition). The limit is a number
  or absent.
\<close>

record fetchState =
  opt_datasource :: "datasource option"
  opt_limit :: "jsnum option"
  opt_paginate :: jsval
  fetch_features :: features
  store_cursor :: jsval
  store_definition :: jsval

text \<open>
  The collaborators that are not part of this module: the deep copy of the helper
  library and the query execution service, which returns a response or throws.
\<close>

record api =
  cloneDeep :: "(string \<times> jsval) list \<Rightarrow> (string \<times> jsval) list"
  executeQuery :: "jsval \<Rightarrow> error + jsval"

definition limitValue :: "jsnum option \<Rightarrow> jsval" where
  "limitValue l = (case l of None \<Rightarrow> JUndefined | Some n \<Rightarrow> JNum n)"

text \<open>The loop over the parameter list: a default fills a parameter that is falsy.\<close>

fun applyDefaults :: "(string \<times> jsval) list \<Rightarrow> param list \<Rightarrow> (string \<times> jsval) list" where
  "applyDefaults ps [] = ps"
| "applyDefaults ps (p # rest) =
     applyDefaults
       (if \<not> truthy (lookupKey ps (param_name p))
        then setKey ps (param_name p) (param_default p) else ps)
       rest"

text \<open>
  Lines 67 to 72. \<open>datasource?.parameters || {}\<close> is the empty object when the list is
  absent, and \<open>for ... of\<close> over a plain object throws a TypeError.
\<close>

definition defaultParameters :: "api \<Rightarrow> datasource option \<Rightarrow> error + (string \<times> jsval) list" where
  "defaultParameters a ds =
     (let ps = cloneDeep a
                 (case ds of None \<Rightarrow> []
                  | Some d \<Rightarrow> (case queryParams d of None \<Rightarrow> [] | Some q \<Rightarrow> q))
      in case (case ds of None \<Rightarrow> None | Some d \<Rightarrow> parameters d) of
           None \<Rightarrow> Inl (TypeError ''{} is not iterable'')
         | Some plist \<Rightarrow> Inr (applyDefaults ps plist))"

definition paginating :: "fetchState \<Rightarrow> bool" where
  "paginating st = (truthy (opt_paginate st) \<and> supportsPagination (fetch_features st))"

text \<open>Lines 75 to 79: the payload, with the pagination entry when paginating.\<close>

definition requestPayload :: "fetchState \<Rightarrow> jsval \<Rightarrow> (string \<times> jsval) list \<Rightarrow> jsval" where
  "requestPayload st type ps =
     (let base = [(''queryId'', (case opt_datasource st of None \<Rightarrow> JUndefined | Some d \<Rightarrow> ds_id d)),
                  (''parameters'', JObj ps)]
      in if paginating st
         then (let requestCursor =
                     (if type = JStr ''page''
                      then JNum (parseInt (if truthy (store_cursor st) then store_cursor st
                                           else JNum (Fin 1)))
                      else store_cursor st)
               in JObj (base @ [(''pagination'',
                    JObj [(''page'', requestCursor), (''limit'', limitValue (opt_limit st))])]))
         else JObj base)"

text \<open>\<open>data?.length === limit\<close> for a limit that is a number or absent.\<close>

fun strictEqLimit :: "jsval \<Rightarrow> jsnum option \<Rightarrow> bool" where
  "strictEqLimit (JNum (Fin a)) (Some (Fin b)) = (a = b)"
| "strictEqLimit JUndefined None = True"
| "strictEqLimit v l = False"

definition limitPositive :: "jsnum option \<Rightarrow> bool" where
  "limitPositive l = (case l of None \<Rightarrow> False | Some n \<Rightarrow> numGt n (Fin 0))"

definition emptyPage :: jsval where
  "emptyPage = JObj [(''rows'', JArr []), (''hasNextPage'', JBool False)]"

text \<open>
  Lines 84 to 108, the body of the \<open>try\<close> after the response has arrived. The
  destructuring of a null or undefined response throws.
\<close>

definition pageResult :: "fetchState \<Rightarrow> jsval \<Rightarrow> jsval \<Rightarrow> jsval \<Rightarrow> error + jsval" where
  "pageResult st type queryPayload res =
     (if nullish res then Inl (TypeError ''Cannot destructure the response'')
      else
        let data = getProp res ''data'';
            pagination = getProp res ''pagination'';
            rest = filter (\<lambda>kv. fst kv \<noteq> ''data'' \<and> fst kv \<noteq> ''pagination'') (ownEntries res)
        in bind
             (if paginating st
              then (if type = JStr ''page''
                    then bind (readProp False queryPayload ''pagination'') (\<lambda>pg.
                         bind (readProp False pg ''page'') (\<lambda>page.
                         bind (readProp True data ''length'') (\<lambda>len.
                           Inr (jsPlus page (JNum (Fin 1)),
                                strictEqLimit len (opt_limit st) \<and> limitPositive (opt_limit st)))))
                    else bind (readProp True pagination ''cursor'') (\<lambda>nextCursor.
                           Inr (nextCursor, \<not> nullish nextCursor)))
              else Inr (JNull, False))
             (\<lambda>(nextCursor, hasNextPage).
                Inr (JObj [(''rows'', (if truthy data then data else JArr [])),
                           (''info'', JObj rest),
                           (''cursor'', nextCursor),
                           (''hasNextPage'', JBool hasNextPage)])))"

text \<open>
  \<open>getData\<close>. The request is constructed outside the \<open>try\<close>, so an error there is the
  result of the call; an error of the execution service or of the normalisation is
  caught and replaced by the empty page.
\<close>

definition getData :: "api \<Rightarrow> fetchState \<Rightarrow> error + jsval" where
  "getData a st =
     bind (paginationField (store_definition st) ''type'') (\<lambda>type.
     bind (defaultParameters a (opt_datasource st)) (\<lambda>ps.
       let queryPayload = requestPayload st type ps
       in case bind (executeQuery a queryPayload) (pageResult st type queryPayload) of
            Inl err \<Rightarrow> Inr emptyPage
          | Inr page \<Rightarrow> Inr page))"

section \<open>Airtable adapter\<close>

text \<open>
  The adapter is typed. A query is the record that \<open>read\<close> declares, an absent field
  being \<open>undefined\<close>; the pagination request has a bookmark (a string or a number), a
  numeric limit and a sort, each optional. A failure is logged on the console, which
  each operation returns as the list of its entries beside its result.
\<close>

type_synonym logEntry = "string \<times> error"

record airtableRecord =
  rec_id :: string
  rec_fields :: jsval

record sortSpec =
  sort_order :: "string option"
  sort_column :: "string option"

record paginationRequest =
  pg_bookmark :: jsval
  pg_limit :: "jsnum option"
  pg_sort :: "sortSpec option"

record filters =
  flt_equal :: jsval

record searchParams =
  sp_pagination :: "paginationRequest option"
  sp_filters :: "filters option"

record readQuery =
  q_table :: jsval
  q_numRecords :: jsval
  q_view :: jsval
  q_sort :: jsval
  q_filterByFormula :: jsval
  q_pagination :: "paginationRequest option"

record writeQuery =
  w_table :: jsval
  w_id :: jsval
  w_json :: jsval

record selectParams =
  maxRecords :: jsval
  sel_view :: jsval
  sel_sort :: jsval
  sel_filterByFormula :: jsval

text \<open>
  The Airtable client is a collaborator. A write returns a value or throws. A selection
  either throws while the request is set up, or hands its pages of records to
  \<open>processPage\<close> one after the other and then calls \<open>processRecords\<close>, whose
  arguments (an error of a later page among them) the adapter does not look at.
\<close>

record client =
  cl_create :: "jsval \<Rightarrow> jsval \<Rightarrow> error + jsval"
  cl_update :: "jsval \<Rightarrow> jsval \<Rightarrow> error + jsval"
  cl_destroy :: "jsval \<Rightarrow> jsval \<Rightarrow> error + jsval"
  cl_select :: "jsval \<Rightarrow> selectParams \<Rightarrow> error + airtableRecord list list"

definition writeError :: "error \<Rightarrow> logEntry" where
  "writeError err = (''Error writing to airtable'', err)"

definition create :: "client \<Rightarrow> writeQuery \<Rightarrow> (error + jsval) \<times> logEntry list" where
  "create cl query =
     (case cl_create cl (w_table query) (JArr [JObj [(''fields'', w_json query)]]) of
        Inr r \<Rightarrow> (Inr r, [])
      | Inl err \<Rightarrow> (Inl err, [writeError err]))"

definition update :: "client \<Rightarrow> writeQuery \<Rightarrow> (error + jsval) \<times> logEntry list" where
  "update cl query =
     (case cl_update cl (w_table query)
             (JArr [JObj [(''id'', w_id query), (''fields'', w_json query)]]) of
        Inr r \<Rightarrow> (Inr r, [])
      | Inl err \<Rightarrow> (Inl err, [writeError err]))"

definition delete :: "client \<Rightarrow> writeQuery \<Rightarrow> (error + jsval) \<times> logEntry list" where
  "delete cl query =
     (case cl_destroy cl (w_table query) (w_id query) of
        Inr r \<Rightarrow> (Inr r, [])
      | Inl err \<Rightarrow> (Inl err, [writeError err]))"

subsection \<open>read\<close>

fun toInteger :: "jsnum \<Rightarrow> int" where
  "toInteger NaN = 0"
| "toInteger (Fin n) = n"

text \<open>
  \<open>Array.prototype.slice(start, end)\<close>: a negative bound counts from the end, and both
  are clamped to the length.
\<close>

definition jsSlice :: "'a list \<Rightarrow> jsnum \<Rightarrow> jsnum \<Rightarrow> 'a list" where
  "jsSlice xs start end =
     (let len = int (length xs);
          rs = toInteger start;
          k = (if rs < 0 then max (len + rs) 0 else min rs len);
          re = toInteger end;
          fin = (if re < 0 then max (len + re) 0 else min re len)
      in take (nat (fin - k)) (drop (nat k) xs))"

definition orElse :: "jsval \<Rightarrow> jsval \<Rightarrow> jsval" where
  "orElse v d = (if truthy v then v else d)"

text \<open>\<open>parseInt(query.pagination?.bookmark ?? "1")\<close>\<close>

definition readBookmark :: "readQuery \<Rightarrow> jsnum" where
  "readBookmark query =
     parseInt (case q_pagination query of
                 None \<Rightarrow> JStr ''1''
               | Some p \<Rightarrow> (if nullish (pg_bookmark p) then JStr ''1'' else pg_bookmark p))"

text \<open>\<open>query.pagination?.limit || 100\<close>\<close>

definition readLimit :: "readQuery \<Rightarrow> jsnum" where
  "readLimit query =
     (case (case q_pagination query of None \<Rightarrow> None | Some p \<Rightarrow> pg_limit p) of
        None \<Rightarrow> Fin 100
      | Some n \<Rightarrow> (if truthy (JNum n) then n else Fin 100))"

definition processPage :: "airtableRecord list \<Rightarrow> airtableRecord list \<Rightarrow> airtableRecord list" where
  "processPage records partialRecords = records @ partialRecords"

definition processRecords :: "readQuery \<Rightarrow> airtableRecord list \<Rightarrow> jsval list" where
  "processRecords query records =
     (let bookmark = readBookmark query;
          limit = readLimit query;
          page = (if numLe bookmark (Fin 1) then Fin 1 else bookmark);
          offset = numSub (numMul page limit) limit
      in jsSlice (map rec_fields records) offset (numMul limit page))"

definition selectArgs :: "readQuery \<Rightarrow> selectParams" where
  "selectArgs query =
     \<lparr>maxRecords = orElse (q_numRecords query) (JNum (Fin 100)),
      sel_view = q_view query,
      sel_sort = orElse (q_sort query) (JArr []),
      sel_filterByFormula = orElse (q_filterByFormula query) (JStr [])\<rparr>"

definition read :: "client \<Rightarrow> readQuery \<Rightarrow> (error + jsval list) \<times> logEntry list" where
  "read cl query =
     (case cl_select cl (q_table query) (selectArgs query) of
        Inr pages \<Rightarrow> (Inr (processRecords query (foldl processPage [] pages)), [])
      | Inl err \<Rightarrow> (Inr [], [writeError err]))"

subsection \<open>search\<close>

definition toLowerCase :: "string \<Rightarrow> string" where
  "toLowerCase s =
     map (\<lambda>c. case map_of (zip ''ABCDEFGHIJKLMNOPQRSTUVWXYZ'' ''abcdefghijklmnopqrstuvwxyz'') c of
                 Some l \<Rightarrow> l | None \<Rightarrow> c) s"

text \<open>\<open>s.replace(pat, rep)\<close> with a string pattern replaces the first occurrence.\<close>

fun replaceFirst :: "string \<Rightarrow> string \<Rightarrow> string \<Rightarrow> string" where
  "replaceFirst pat rep [] = (if pat = [] then rep else [])"
| "replaceFirst pat rep (c # cs) =
     (if take (length pat) (c # cs) = pat then rep @ drop (length pat) (c # cs)
      else c # replaceFirst pat rep cs)"

text \<open>Lines 216 to 225: the sort directive.\<close>

definition sortDirective :: "searchParams option \<Rightarrow> jsval option" where
  "sortDirective params =
     (let srt = (case params of None \<Rightarrow> None
                 | Some sp \<Rightarrow> (case sp_pagination sp of None \<Rightarrow> None | Some pg \<Rightarrow> pg_sort pg));
          sortOrder = (case srt of None \<Rightarrow> None
                       | Some so \<Rightarrow> map_option (\<lambda>ord. replaceFirst ''ending'' [] (toLowerCase ord))
                                     (sort_order so));
          sortColumn = (case srt of None \<Rightarrow> None | Some so \<Rightarrow> sort_column so)
      in case (sortOrder, sortColumn) of
           (Some ord, Some col) \<Rightarrow>
             (if ord \<noteq> [] \<and> col \<noteq> []
              then Some (JArr [JObj [(''field'', JStr col), (''direction'', JStr ord)]])
              else None)
         | _ \<Rightarrow> None)"

text \<open>
  Lines 227 to 238: one clause and a comma for each entry, the last comma removed,
  the whole wrapped when there is more than one entry.
\<close>

definition appendClause :: "string \<Rightarrow> string \<times> jsval \<Rightarrow> string" where
  "appendClause filterByFormula kv =
     filterByFormula @ fst kv @ ''='' @ [CHR 0x27] @ toStr (snd kv) @ [CHR 0x27] @ '',''"

definition equalityFormula :: "(string \<times> jsval) list \<Rightarrow> string" where
  "equalityFormula entries =
     (let f0 = foldl appendClause [] entries
      in if length f0 > 0
         then (let f1 = take (length f0 - 1) f0
               in if length entries > 1 then ''AND('' @ f1 @ '')'' else f1)
         else f0)"

definition searchQuery :: "readQuery \<Rightarrow> searchParams option \<Rightarrow> error + readQuery" where
  "searchQuery originalQuery params =
     (let q1 = (case sortDirective params of
                  None \<Rightarrow> originalQuery
                | Some srt \<Rightarrow> originalQuery\<lparr>q_sort := srt\<rparr>)
      in case params of
           None \<Rightarrow> Inl (TypeError ''Cannot read properties of undefined: filters'')
         | Some sp \<Rightarrow>
            (let eq = (case sp_filters sp of None \<Rightarrow> JUndefined | Some f \<Rightarrow> flt_equal f);
                 filterByFormula = equalityFormula (ownEntries (orElse eq (JObj [])));
                 q2 = (if length filterByFormula > 0
                       then q1\<lparr>q_filterByFormula := JStr filterByFormula\<rparr> else q1)
             in Inr (q2\<lparr>q_pagination := sp_pagination sp\<rparr>)))"

definition search :: "client \<Rightarrow> readQuery \<Rightarrow> searchParams option
    \<Rightarrow> (error + jsval list) \<times> logEntry list" where
  "search cl originalQuery params =
     (case searchQuery originalQuery params of
        Inl err \<Rightarrow> (Inl err, [])
      | Inr query \<Rightarrow> read cl query)"

section \<open>Grid table store\<close>

text \<open>
  A table datasource has a type tag and a table identifier, both strings that may be
  absent. A fetch instance carries its options and its query state; \<open>update\<close> belongs
  to the fetch class, which is not part of this module, and is a parameter here.
\<close>

record tableDatasource =
  td_type :: "string option"
  td_tableId :: "string option"

record fetchOptions =
  fo_datasource :: "tableDatasource option"

record 's fetchInstance =
  fi_options :: "fetchOptions option"
  fi_query :: 's

datatype fetchUpdate = FilterUpdate jsval | SortUpdate jsval jsval

text \<open>\<open>datasource?.type === "table" && datasource?.tableId\<close>, as a condition.\<close>

definition isDatasourceValid :: "tableDatasource option \<Rightarrow> bool" where
  "isDatasourceValid ds =
     (case ds of
        None \<Rightarrow> False
      | Some d \<Rightarrow> td_type d = Some ''table''
                  \<and> (case td_tableId d of None \<Rightarrow> False | Some t \<Rightarrow> t \<noteq> []))"

text \<open>\<open>$fetch?.options?.datasource?.tableId\<close>\<close>

definition boundTableId :: "'s fetchInstance option \<Rightarrow> string option" where
  "boundTableId fetch =
     (case fetch of
        None \<Rightarrow> None
      | Some f \<Rightarrow>
         (case fi_options f of
            None \<Rightarrow> None
          | Some opts \<Rightarrow>
             (case fo_datasource opts of None \<Rightarrow> None | Some d \<Rightarrow> td_tableId d)))"

text \<open>
  The two subscribers that the datasource callback installs. Each closes over the
  datasource it was installed for and receives the current value of the fetch store
  and the new filter or sort; it returns the fetch store's instance afterwards.
\<close>

definition onFilterChange ::
  "(fetchUpdate \<Rightarrow> 's fetchInstance \<Rightarrow> 's fetchInstance) \<Rightarrow> tableDatasource
    \<Rightarrow> 's fetchInstance option \<Rightarrow> jsval \<Rightarrow> error + 's fetchInstance option" where
  "onFilterChange upd ds fetch flt =
     (if boundTableId fetch \<noteq> td_tableId ds then Inr fetch
      else case fetch of
             None \<Rightarrow> Inl (TypeError ''Cannot read properties of undefined: update'')
           | Some f \<Rightarrow> Inr (Some (upd (FilterUpdate flt) f)))"

definition onSortChange ::
  "(fetchUpdate \<Rightarrow> 's fetchInstance \<Rightarrow> 's fetchInstance) \<Rightarrow> tableDatasource
    \<Rightarrow> 's fetchInstance option \<Rightarrow> jsval \<Rightarrow> error + 's fetchInstance option" where
  "onSortChange upd ds fetch srt =
     (if boundTableId fetch \<noteq> td_tableId ds then Inr fetch
      else case fetch of
             None \<Rightarrow> Inl (TypeError ''Cannot read properties of undefined: update'')
           | Some f \<Rightarrow>
               bind (readProp False srt ''order'') (\<lambda>ord.
               bind (readProp False srt ''column'') (\<lambda>col.
                 Inr (Some (upd (SortUpdate (orElse ord (JStr ''ascending'')) col) f)))))"

text \<open>
  The datasource callback: nothing is installed for an invalid datasource, the filter
  and the sort subscriber otherwise.
\<close>

datatype subscriber = FilterSubscriber tableDatasource | SortSubscriber tableDatasource

definition installSubscribers :: "tableDatasource option \<Rightarrow> subscriber list" where
  "installSubscribers ds =
     (if \<not> isDatasourceValid ds then []
      else case ds of None \<Rightarrow> [] | Some d \<Rightarrow> [FilterSubscriber d, SortSubscriber d])"

fun fire ::
  "(fetchUpdate \<Rightarrow> 's fetchInstance \<Rightarrow> 's fetchInstance) \<Rightarrow> subscriber
    \<Rightarrow> 's fetchInstance option \<Rightarrow> jsval \<Rightarrow> error + 's fetchInstance option" where
  "fire upd (FilterSubscriber d) fetch v = onFilterChange upd d fetch v"
| "fire upd (SortSubscriber d) fetch v = onSortChange upd d fetch v"

section \<open>Specification-side notions and examples\<close>

text \<open>
  The formula the specification gives for equality filters: one clause \<open>key='value'\<close>
  for each pair, the clauses separated by commas.
\<close>

definition spec_clause :: "string \<times> jsval \<Rightarrow> string" where
  "spec_clause kv = fst kv @ ''='' @ [CHR 0x27] @ toStr (snd kv) @ [CHR 0x27]"

fun spec_commaJoin :: "string list \<Rightarrow> string" where
  "spec_commaJoin [] = []"
| "spec_commaJoin [x] = x"
| "spec_commaJoin (x # y # ys) = x @ '','' @ spec_commaJoin (y # ys)"

text \<open>
  The window as the specification words it: the rows over
  \<open>[offset, offset + limit * page)\<close> with \<open>offset = limit * page - limit\<close> and
  \<open>page = max(bookmark, 1)\<close>.
\<close>

definition spec_window :: "'a list \<Rightarrow> int \<Rightarrow> int \<Rightarrow> 'a list" where
  "spec_window rows bookmark limit =
     (let page = max bookmark 1;
          offset = limit * page - limit
      in jsSlice rows (Fin offset) (Fin (offset + limit * page)))"

text \<open>
  A cursor that is present in the specification's sense: neither null nor undefined,
  and not the empty string.
\<close>

definition spec_cursorPresent :: "jsval \<Rightarrow> bool" where
  "spec_cursorPresent c = (\<not> nullish c \<and> c \<noteq> JStr [])"

text \<open>Example inputs.\<close>

definition exampleDefinition :: "string \<Rightarrow> jsval" where
  "exampleDefinition kind =
     JObj [(''fields'', JObj [(''pagination'',
       JObj [(''type'', JStr kind), (''location'', JStr ''query''),
             (''pageParam'', JStr ''page'')])])]"

definition exampleDatasource :: datasource where
  "exampleDatasource =
     \<lparr>ds_id = JStr ''query_1'',
      queryParams = Some [(''city'', JStr ''Oslo'')],
      parameters = Some [\<lparr>param_name = ''city'', param_default = JStr ''Rome''\<rparr>,
                         \<lparr>param_name = ''year'', param_default = JNum (Fin 2020)\<rparr>]\<rparr>"

definition exampleState :: "string \<Rightarrow> int \<Rightarrow> jsval \<Rightarrow> fetchState" where
  "exampleState kind lim cur =
     \<lparr>opt_datasource = Some exampleDatasource,
      opt_limit = Some (Fin lim),
      opt_paginate = JBool True,
      fetch_features = \<lparr>supportsPagination = True\<rparr>,
      store_cursor = cur,
      store_definition = exampleDefinition kind\<rparr>"

definition respondWith :: "error + jsval \<Rightarrow> api" where
  "respondWith r = \<lparr>cloneDeep = (\<lambda>ps. ps), executeQuery = (\<lambda>payload. r)\<rparr>"

definition exampleRow :: "int \<Rightarrow> airtableRecord" where
  "exampleRow n = \<lparr>rec_id = ''rec'', rec_fields = JObj [(''n'', JNum (Fin n))]\<rparr>"

definition exampleClient :: "error + airtableRecord list list \<Rightarrow> error + jsval \<Rightarrow> client" where
  "exampleClient sel wr =
     \<lparr>cl_create = (\<lambda>t r. wr), cl_update = (\<lambda>t r. wr), cl_destroy = (\<lambda>t i. wr),
      cl_select = (\<lambda>t p. sel)\<rparr>"

definition exampleQuery :: "paginationRequest option \<Rightarrow> readQuery" where
  "exampleQuery pg =
     \<lparr>q_table = JStr ''Projects'', q_numRecords = JUndefined, q_view = JStr ''Grid'',
      q_sort = JUndefined, q_filterByFormula = JUndefined, q_pagination = pg\<rparr>"

definition exampleFetch :: "string \<Rightarrow> (fetchUpdate list) fetchInstance" where
  "exampleFetch t =
     \<lparr>fi_options = Some \<lparr>fo_datasource = Some \<lparr>td_type = Some ''table'', td_tableId = Some t\<rparr>\<rparr>,
      fi_query = []\<rparr>"

definition recordUpdate :: "fetchUpdate \<Rightarrow> (fetchUpdate list) fetchInstance
    \<Rightarrow> (fetchUpdate list) fetchInstance" where
  "recordUpdate u f = f\<lparr>fi_query := fi_query f @ [u]\<rparr>"

section \<open>Properties of feature negotiation\<close>

lemma arrayIndex_fields [simp]: "arrayIndex ''fields'' = None"
  by (simp add: arrayIndex_def isDigit_def)

lemma arrayIndex_pagination [simp]: "arrayIndex ''pagination'' = None"
  by (simp add: arrayIndex_def isDigit_def)

lemma arrayIndex_type [simp]: "arrayIndex ''type'' = None"
  by (simp add: arrayIndex_def isDigit_def)

lemma arrayIndex_location [simp]: "arrayIndex ''location'' = None"
  by (simp add: arrayIndex_def isDigit_def)

lemma arrayIndex_pageParam [simp]: "arrayIndex ''pageParam'' = None"
  by (simp add: arrayIndex_def isDigit_def)

lemma getProp_ownField:
  assumes "k \<noteq> ''length''" and "arrayIndex k = None"
  shows "getProp v k = (case ownField v k of Some w \<Rightarrow> w | None \<Rightarrow> JUndefined)"
  using assms by (cases v) simp_all

lemma readProp_optional:
  assumes "k \<noteq> ''length''" and "arrayIndex k = None"
  shows "readProp True v k = Inr (case ownField v k of Some w \<Rightarrow> w | None \<Rightarrow> JUndefined)"
  using assms by (cases v) (simp_all add: readProp_def)

lemma paginationField_value:
  assumes "k \<noteq> ''length''" and "arrayIndex k = None"
  shows "\<exists>v. paginationField d k = Inr v \<and> truthy v = spec_declares d k"
proof -
  have f: "readProp True d ''fields'' =
      Inr (case ownField d ''fields'' of Some w \<Rightarrow> w | None \<Rightarrow> JUndefined)"
    by (rule readProp_optional) simp_all
  have p: "\<And>x. readProp True x ''pagination'' =
      Inr (case ownField x ''pagination'' of Some w \<Rightarrow> w | None \<Rightarrow> JUndefined)"
    by (rule readProp_optional) simp_all
  have q: "\<And>x. readProp True x k =
      Inr (case ownField x k of Some w \<Rightarrow> w | None \<Rightarrow> JUndefined)"
    using assms by (rule readProp_optional)
  show ?thesis
    unfolding paginationField_def spec_declares_def
    by (simp add: f p q bind_def split: option.splits)
qed

text \<open>
  C1. For every value passed as the definition, \<open>determineFeatureFlags\<close> returns (it has
  no failing run), and \<open>supportsPagination\<close> is true exactly when the pagination
  metadata declares a type, a location and a pageParam. An entry is declared when
  \<open>definition.fields.pagination\<close> holds it with a non-empty (truthy) value; a missing
  definition, \<open>fields\<close>, \<open>pagination\<close> or entry declares nothing.
\<close>

theorem determineFeatureFlags_supportsPagination:
  "determineFeatureFlags d =
     Inr \<lparr>supportsPagination =
            (spec_declares d ''type'' \<and> spec_declares d ''location''
             \<and> spec_declares d ''pageParam'')\<rparr>"
proof -
  obtain t where t: "paginationField d ''type'' = Inr t"
      "truthy t = spec_declares d ''type''"
    using paginationField_value [of "''type''" d] by auto
  obtain l where l: "paginationField d ''location'' = Inr l"
      "truthy l = spec_declares d ''location''"
    using paginationField_value [of "''location''" d] by auto
  obtain p where p: "paginationField d ''pageParam'' = Inr p"
      "truthy p = spec_declares d ''pageParam''"
    using paginationField_value [of "''pageParam''" d] by auto
  show ?thesis
    unfolding determineFeatureFlags_def using t l p by (simp add: bind_def)
qed

text \<open>
  The definition of a page-kind query, one without a pageParam, and a missing definition.
\<close>

theorem determineFeatureFlags_supportsPagination_witness:
  "determineFeatureFlags (exampleDefinition ''page'') = Inr \<lparr>supportsPagination = True\<rparr>
   \<and> determineFeatureFlags (JObj [(''fields'', JObj [(''pagination'',
         JObj [(''type'', JStr ''page''), (''location'', JStr ''query'')])])])
       = Inr \<lparr>supportsPagination = False\<rparr>
   \<and> determineFeatureFlags JUndefined = Inr \<lparr>supportsPagination = False\<rparr>"
  using determineFeatureFlags_supportsPagination [of "exampleDefinition ''page''"]
    determineFeatureFlags_supportsPagination [of "JObj [(''fields'', JObj [(''pagination'',
         JObj [(''type'', JStr ''page''), (''location'', JStr ''query'')])])]"]
    determineFeatureFlags_supportsPagination [of JUndefined]
  by (simp add: spec_declares_def exampleDefinition_def)

section \<open>Properties of getData\<close>

lemma paginationField_total: "\<exists>v. paginationField d k = Inr v"
  by (simp add: paginationField_def readProp_def bind_def)

lemma requestPayload_pagination:
  assumes "paginating st"
  shows "readProp False (requestPayload st (JStr ''page'') ps) ''pagination'' =
     Inr (JObj [(''page'', JNum (parseInt (if truthy (store_cursor st) then store_cursor st
                                           else JNum (Fin 1)))),
                (''limit'', limitValue (opt_limit st))])"
  using assms by (simp add: requestPayload_def readProp_def)

lemma length_check:
  "(strictEqLimit (JNum (Fin (int n))) l \<and> limitPositive l) =
   (case l of Some (Fin k) \<Rightarrow> int n = k \<and> 0 < k | _ \<Rightarrow> False)"
  by (cases l) (auto simp: limitPositive_def split: jsnum.splits)

lemma pageResult_page:
  assumes "paginating st" and "getProp res ''data'' = JArr rows"
  shows "pageResult st (JStr ''page'') (requestPayload st (JStr ''page'') ps) res =
     Inr (JObj [(''rows'', JArr rows),
                (''info'', JObj (filter (\<lambda>kv. fst kv \<noteq> ''data'' \<and> fst kv \<noteq> ''pagination'')
                                   (ownEntries res))),
                (''cursor'', JNum (numAdd (parseInt (if truthy (store_cursor st)
                                then store_cursor st else JNum (Fin 1))) (Fin 1))),
                (''hasNextPage'', JBool (case opt_limit st of
                     Some (Fin k) \<Rightarrow> int (length rows) = k \<and> 0 < k | _ \<Rightarrow> False))])"
proof -
  let ?page = "JNum (parseInt (if truthy (store_cursor st) then store_cursor st else JNum (Fin 1)))"
  have nn: "\<not> nullish res" using assms(2) by (cases res) simp_all
  have page: "readProp False (JObj [(''page'', ?page), (''limit'', limitValue (opt_limit st))])
      ''page'' = Inr ?page"
    by (simp add: readProp_def)
  have len: "readProp True (JArr rows) ''length'' = Inr (JNum (Fin (int (length rows))))"
    by (simp add: readProp_def)
  have plus: "jsPlus ?page (JNum (Fin 1)) = JNum (numAdd (parseInt (if truthy (store_cursor st)
      then store_cursor st else JNum (Fin 1))) (Fin 1))"
    by (simp add: jsPlus_def)
  show ?thesis
    unfolding pageResult_def
    using nn assms
    by (simp add: Let_def requestPayload_pagination page len plus bind_def length_check
        del: getProp.simps)
qed

lemma getData_parameters_absent:
  "getData a (st\<lparr>opt_datasource := Some (d\<lparr>parameters := None\<rparr>)\<rparr>) = Inl (TypeError ''{} is not iterable'')"
  using paginationField_total [of "store_definition st" "''type''"]
  by (auto simp: getData_def defaultParameters_def bind_def)

lemma getData_no_datasource:
  "getData a (st\<lparr>opt_datasource := None\<rparr>) = Inl (TypeError ''{} is not iterable'')"
  using paginationField_total [of "store_definition st" "''type''"]
  by (auto simp: getData_def defaultParameters_def bind_def)

lemma example_type: "paginationField (store_definition (exampleState kind lim cur)) ''type'' = Inr (JStr kind)"
  by (simp add: exampleState_def exampleDefinition_def paginationField_def readProp_def bind_def)

lemma example_paginating: "paginating (exampleState kind lim cur)"
  by (simp add: paginating_def exampleState_def)

lemma example_parameters:
  "defaultParameters (respondWith r) (opt_datasource (exampleState kind lim cur)) =
     Inr [(''city'', JStr ''Oslo''), (''year'', JNum (Fin 2020))]"
  by (simp add: defaultParameters_def respondWith_def exampleState_def exampleDatasource_def
      lookupKey_def)

lemma example_execute: "executeQuery (respondWith r) payload = r"
  by (simp add: respondWith_def)

text \<open>
  C2. Page-kind pagination, supported and enabled, with a request that was constructed
  and answered by a response whose data is a sequence of rows: \<open>hasNextPage\<close> is true
  exactly when the number of rows equals the limit and the limit is positive, and the
  returned cursor is the requested page (the stored cursor, 1 when it is falsy, read by
  \<open>parseInt\<close>) plus one.
\<close>

theorem getData_page_kind:
  assumes "paginating st"
    and "paginationField (store_definition st) ''type'' = Inr (JStr ''page'')"
    and "defaultParameters a (opt_datasource st) = Inr ps"
    and "executeQuery a (requestPayload st (JStr ''page'') ps) = Inr res"
    and "getProp res ''data'' = JArr rows"
  shows "\<exists>info. getData a st =
     Inr (JObj [(''rows'', JArr rows),
                (''info'', info),
                (''cursor'', JNum (numAdd (parseInt (if truthy (store_cursor st)
                                then store_cursor st else JNum (Fin 1))) (Fin 1))),
                (''hasNextPage'', JBool (case opt_limit st of
                     Some (Fin k) \<Rightarrow> int (length rows) = k \<and> 0 < k | _ \<Rightarrow> False))])"
  unfolding getData_def
  using assms(2,3,4) pageResult_page [OF assms(1) assms(5), of ps]
  by (simp add: bind_def)

text \<open>
  With limit 100 and the stored page 3: a response of 100 rows gives \<open>hasNextPage\<close>
  true and cursor 4, a response of 37 rows gives \<open>hasNextPage\<close> false.
\<close>

theorem getData_page_kind_witness:
  "(\<exists>info. getData (respondWith (Inr (JObj [(''data'', JArr (replicate 100 JNull))])))
             (exampleState ''page'' 100 (JNum (Fin 3))) =
      Inr (JObj [(''rows'', JArr (replicate 100 JNull)), (''info'', info),
                 (''cursor'', JNum (Fin 4)), (''hasNextPage'', JBool True)]))
   \<and> (\<exists>info. getData (respondWith (Inr (JObj [(''data'', JArr (replicate 37 JNull))])))
             (exampleState ''page'' 100 (JNum (Fin 3))) =
      Inr (JObj [(''rows'', JArr (replicate 37 JNull)), (''info'', info),
                 (''cursor'', JNum (Fin 4)), (''hasNextPage'', JBool False)]))"
proof -
  let ?st = "exampleState ''page'' 100 (JNum (Fin 3))"
  let ?ps = "[(''city'', JStr ''Oslo''), (''year'', JNum (Fin 2020))]"
  have three: "parseInt (JNum (Fin 3)) = Fin 3" by code_simp
  have cur: "parseInt (if truthy (store_cursor ?st) then store_cursor ?st else JNum (Fin 1)) = Fin 3"
    by (simp add: exampleState_def three)
  have lim: "opt_limit ?st = Some (Fin 100)" by (simp add: exampleState_def)
  have full: "\<exists>info. getData (respondWith (Inr (JObj [(''data'', JArr (replicate 100 JNull))]))) ?st =
      Inr (JObj [(''rows'', JArr (replicate 100 JNull)), (''info'', info),
                 (''cursor'', JNum (Fin 4)), (''hasNextPage'', JBool True)])"
    using getData_page_kind [where st = ?st and ps = ?ps and rows = "replicate 100 JNull"
        and a = "respondWith (Inr (JObj [(''data'', JArr (replicate 100 JNull))]))"
        and res = "JObj [(''data'', JArr (replicate 100 JNull))]"]
    by (simp add: example_paginating example_type example_parameters example_execute cur lim)
  have part: "\<exists>info. getData (respondWith (Inr (JObj [(''data'', JArr (replicate 37 JNull))]))) ?st =
      Inr (JObj [(''rows'', JArr (replicate 37 JNull)), (''info'', info),
                 (''cursor'', JNum (Fin 4)), (''hasNextPage'', JBool False)])"
    using getData_page_kind [where st = ?st and ps = ?ps and rows = "replicate 37 JNull"
        and a = "respondWith (Inr (JObj [(''data'', JArr (replicate 37 JNull))]))"
        and res = "JObj [(''data'', JArr (replicate 37 JNull))]"]
    by (simp add: example_paginating example_type example_parameters example_execute cur lim)
  from full part show ?thesis by (rule conjI)
qed

text \<open>
  C3, as the code has it. Pagination of any kind other than \<open>"page"\<close>, supported and
  enabled, with a request that was constructed and answered: the returned cursor is
  the value of \<open>pagination?.cursor\<close> in the response, and \<open>hasNextPage\<close> is true exactly
  when that value is neither null nor undefined. An empty string counts as a cursor.
\<close>

theorem getData_cursor_kind:
  assumes "paginating st"
    and "paginationField (store_definition st) ''type'' = Inr type"
    and "type \<noteq> JStr ''page''"
    and "defaultParameters a (opt_datasource st) = Inr ps"
    and "executeQuery a (requestPayload st type ps) = Inr res"
    and "\<not> nullish res"
    and "readProp True (getProp res ''pagination'') ''cursor'' = Inr c"
  shows "\<exists>rows info. getData a st =
     Inr (JObj [(''rows'', rows), (''info'', info), (''cursor'', c),
                (''hasNextPage'', JBool (c \<noteq> JNull \<and> c \<noteq> JUndefined))])"
proof -
  have n: "(\<not> nullish c) = (c \<noteq> JNull \<and> c \<noteq> JUndefined)" by (cases c) simp_all
  show ?thesis
    unfolding getData_def pageResult_def
    using assms n by (simp add: Let_def bind_def del: getProp.simps)
qed

text \<open>
  A response with the cursor \<open>"next_42"\<close>.
\<close>

theorem getData_cursor_kind_witness:
  "\<exists>rows info.
     getData (respondWith (Inr (JObj [(''data'', JArr [JNull]),
                (''pagination'', JObj [(''cursor'', JStr ''next_42'')])])))
             (exampleState ''cursor'' 100 JNull) =
     Inr (JObj [(''rows'', rows), (''info'', info), (''cursor'', JStr ''next_42''),
                (''hasNextPage'', JBool True)])"
  using getData_cursor_kind [where st = "exampleState ''cursor'' 100 JNull"
      and a = "respondWith (Inr (JObj [(''data'', JArr [JNull]),
                (''pagination'', JObj [(''cursor'', JStr ''next_42'')])]))"
      and type = "JStr ''cursor''"
      and ps = "[(''city'', JStr ''Oslo''), (''year'', JNum (Fin 2020))]"
      and res = "JObj [(''data'', JArr [JNull]),
                (''pagination'', JObj [(''cursor'', JStr ''next_42'')])]"
      and c = "JStr ''next_42''"]
  by (simp add: example_paginating example_type example_parameters example_execute readProp_def)

text \<open>
  C3 as stated fails when the backend returns the empty string as cursor: the cursor is
  not present in the specification's sense, and \<open>hasNextPage\<close> is true.
\<close>

theorem getData_cursor_empty_counterexample:
  "getData (respondWith (Inr (JObj [(''data'', JArr []),
                (''pagination'', JObj [(''cursor'', JStr [])])])))
           (exampleState ''cursor'' 100 JNull) =
     Inr (JObj [(''rows'', JArr []), (''info'', JObj []), (''cursor'', JStr []),
                (''hasNextPage'', JBool True)])
   \<and> \<not> spec_cursorPresent (JStr [])"
  by (simp add: getData_def example_type example_parameters example_execute bind_def
      pageResult_def example_paginating readProp_def Let_def spec_cursorPresent_def)

text \<open>
  C4. When the request was constructed and the execution service throws, \<open>getData\<close>
  returns the empty page: no rows, no next page, and no error.
\<close>

theorem getData_request_failure:
  assumes "paginationField (store_definition st) ''type'' = Inr type"
    and "defaultParameters a (opt_datasource st) = Inr ps"
    and "executeQuery a (requestPayload st type ps) = Inl err"
  shows "getData a st = Inr (JObj [(''rows'', JArr []), (''hasNextPage'', JBool False)])"
  unfolding getData_def using assms by (simp add: bind_def emptyPage_def)

text \<open>
  The execution service throwing a timeout.
\<close>

theorem getData_request_failure_witness:
  "getData (respondWith (Inl (Thrown (JStr ''timeout'')))) (exampleState ''page'' 100 JNull)
     = Inr (JObj [(''rows'', JArr []), (''hasNextPage'', JBool False)])"
  using getData_request_failure [where st = "exampleState ''page'' 100 JNull"
      and a = "respondWith (Inl (Thrown (JStr ''timeout'')))" and type = "JStr ''page''"
      and ps = "[(''city'', JStr ''Oslo''), (''year'', JNum (Fin 2020))]"
      and err = "Thrown (JStr ''timeout'')"]
  by (simp add: example_type example_parameters example_execute)

text \<open>
  C10. A datasource without a parameter list: \<open>getData\<close> throws a TypeError while it
  constructs the request, whatever the execution service would answer. The fallback of
  line 68 is a plain object, which \<open>for ... of\<close> cannot iterate; a page result would need
  the empty array there.
\<close>

theorem getData_parameters_absent_throws:
  "getData (respondWith (Inr (JObj [(''data'', JArr [])])))
     \<lparr>opt_datasource = Some \<lparr>ds_id = JStr ''query_1'', queryParams = Some [], parameters = None\<rparr>,
      opt_limit = Some (Fin 100), opt_paginate = JBool False,
      fetch_features = \<lparr>supportsPagination = False\<rparr>,
      store_cursor = JNull, store_definition = JNull\<rparr>
   = Inl (TypeError ''{} is not iterable'')"
  by (simp add: getData_def defaultParameters_def bind_def paginationField_def readProp_def
      respondWith_def)

section \<open>Properties of the Airtable adapter\<close>

lemma foldl_appendClause:
  "foldl appendClause acc kvs = acc @ concat (map (\<lambda>kv. spec_clause kv @ '','') kvs)"
  by (induction kvs arbitrary: acc) (simp_all add: appendClause_def spec_clause_def)

lemma clauses_commaJoin:
  "kvs \<noteq> [] \<Longrightarrow>
   concat (map (\<lambda>kv. spec_clause kv @ '','') kvs) = spec_commaJoin (map spec_clause kvs) @ '',''"
  by (induction kvs rule: induct_list012) simp_all

lemma equalityFormula_cases:
  "equalityFormula kvs =
     (case kvs of [] \<Rightarrow> []
      | [kv] \<Rightarrow> spec_clause kv
      | _ \<Rightarrow> ''AND('' @ spec_commaJoin (map spec_clause kvs) @ '')'')"
proof (cases kvs)
  case Nil
  then show ?thesis by (simp add: equalityFormula_def)
next
  case (Cons kv rest)
  then have ne: "kvs \<noteq> []" by simp
  have f0: "foldl appendClause [] kvs = spec_commaJoin (map spec_clause kvs) @ '',''"
    using clauses_commaJoin [OF ne] by (simp add: foldl_appendClause)
  show ?thesis
    unfolding equalityFormula_def f0 using Cons
    by (cases rest) (simp_all add: Let_def)
qed

lemma equalityFormula_empty: "(equalityFormula kvs = []) = (kvs = [])"
proof (cases kvs)
  case Nil
  then show ?thesis by (simp add: equalityFormula_cases)
next
  case (Cons kv rest)
  then show ?thesis
    by (cases rest) (simp_all add: equalityFormula_cases spec_clause_def)
qed

lemma foldl_processPage: "foldl processPage acc pages = acc @ concat pages"
  by (induction pages arbitrary: acc) (simp_all add: processPage_def)

lemma parseInt_one: "parseInt (JStr ''1'') = Fin 1"
  by code_simp

lemma parseInt_two: "parseInt (JNum (Fin 2)) = Fin 2"
  by code_simp

lemma jsSlice_window:
  assumes "0 < l" and "0 \<le> off"
  shows "jsSlice xs (Fin off) (Fin (off + l)) = take (nat l) (drop (nat off) xs)"
proof (cases "off < int (length xs)")
  case True
  have "min (off + l) (int (length xs)) - off = min l (int (length xs) - off)" by linarith
  moreover have "take (nat (min l (int (length xs) - off))) (drop (nat off) xs)
      = take (nat l) (drop (nat off) xs)"
    using assms True by (simp add: min_def nat_diff_distrib)
  ultimately show ?thesis
    using assms True by (simp add: jsSlice_def Let_def min_absorb1)
next
  case False
  then show ?thesis using assms by (simp add: jsSlice_def Let_def)
qed

lemma example_select: "cl_select (exampleClient sel wr) t p = sel"
  by (simp add: exampleClient_def)

text \<open>
  C5. For an equality filter set with the pairs \<open>kvs\<close>, \<open>search\<close> reads with a query
  whose filter formula is: the caller's own (none is emitted) when there is no pair,
  the single clause without a wrapper when there is one pair, and the clauses separated
  by commas inside one \<open>AND(...)\<close> when there are two or more.
\<close>

theorem search_equality_filters:
  assumes "sp_filters sp = Some \<lparr>flt_equal = JObj kvs\<rparr>"
  shows "\<exists>q. searchQuery oq (Some sp) = Inr q
           \<and> search cl oq (Some sp) = read cl q
           \<and> q_filterByFormula q =
               (case kvs of
                  [] \<Rightarrow> q_filterByFormula oq
                | [kv] \<Rightarrow> JStr (spec_clause kv)
                | _ \<Rightarrow> JStr (''AND('' @ spec_commaJoin (map spec_clause kvs) @ '')''))"
proof -
  define q1 where "q1 = (case sortDirective (Some sp) of
      None \<Rightarrow> oq | Some srt \<Rightarrow> oq\<lparr>q_sort := srt\<rparr>)"
  have keep: "q_filterByFormula q1 = q_filterByFormula oq"
    by (simp add: q1_def split: option.splits)
  define q where "q = (if kvs \<noteq> [] then q1\<lparr>q_filterByFormula := JStr (equalityFormula kvs)\<rparr>
      else q1)\<lparr>q_pagination := sp_pagination sp\<rparr>"
  have sq: "searchQuery oq (Some sp) = Inr q"
    using assms
    by (simp add: searchQuery_def Let_def orElse_def equalityFormula_empty q_def q1_def)
  have fm: "q_filterByFormula q =
      (case kvs of [] \<Rightarrow> q_filterByFormula oq
       | [kv] \<Rightarrow> JStr (spec_clause kv)
       | _ \<Rightarrow> JStr (''AND('' @ spec_commaJoin (map spec_clause kvs) @ '')''))"
    by (simp add: q_def keep equalityFormula_cases split: list.splits)
  have "search cl oq (Some sp) = read cl q"
    by (simp add: search_def sq)
  with sq fm show ?thesis by blast
qed

text \<open>
  The filters \<open>{a: 1}\<close>, \<open>{a: 1, b: 2}\<close> and \<open>{}\<close>.
\<close>

theorem search_equality_filters_witness:
  "(\<exists>q. searchQuery (exampleQuery None)
            (Some \<lparr>sp_pagination = None,
                   sp_filters = Some \<lparr>flt_equal = JObj [(''a'', JNum (Fin 1))]\<rparr>\<rparr>) = Inr q
        \<and> q_filterByFormula q = JStr (''a='1'' @ [CHR 0x27]))
   \<and> (\<exists>q. searchQuery (exampleQuery None)
            (Some \<lparr>sp_pagination = None,
                   sp_filters = Some \<lparr>flt_equal = JObj [(''a'', JNum (Fin 1)),
                                                          (''b'', JNum (Fin 2))]\<rparr>\<rparr>) = Inr q
        \<and> q_filterByFormula q = JStr ''AND(a='1',b='2')'')
   \<and> (\<exists>q. searchQuery (exampleQuery None)
            (Some \<lparr>sp_pagination = None, sp_filters = Some \<lparr>flt_equal = JObj []\<rparr>\<rparr>) = Inr q
        \<and> q_filterByFormula q = JUndefined)"
proof -
  have one: "showInt 1 = ''1''" by code_simp
  have two: "showInt 2 = ''2''" by code_simp
  have a: "\<exists>q. searchQuery (exampleQuery None)
            (Some \<lparr>sp_pagination = None,
                   sp_filters = Some \<lparr>flt_equal = JObj [(''a'', JNum (Fin 1))]\<rparr>\<rparr>) = Inr q
        \<and> q_filterByFormula q = JStr (''a='1'' @ [CHR 0x27])"
    using search_equality_filters [where oq = "exampleQuery None"
        and kvs = "[(''a'', JNum (Fin 1))]"
        and sp = "\<lparr>sp_pagination = None,
                   sp_filters = Some \<lparr>flt_equal = JObj [(''a'', JNum (Fin 1))]\<rparr>\<rparr>"]
    by (auto simp: spec_clause_def one)
  have b: "\<exists>q. searchQuery (exampleQuery None)
            (Some \<lparr>sp_pagination = None,
                   sp_filters = Some \<lparr>flt_equal = JObj [(''a'', JNum (Fin 1)),
                                                          (''b'', JNum (Fin 2))]\<rparr>\<rparr>) = Inr q
        \<and> q_filterByFormula q = JStr ''AND(a='1',b='2')''"
    using search_equality_filters [where oq = "exampleQuery None"
        and kvs = "[(''a'', JNum (Fin 1)), (''b'', JNum (Fin 2))]"
        and sp = "\<lparr>sp_pagination = None,
                   sp_filters = Some \<lparr>flt_equal = JObj [(''a'', JNum (Fin 1)),
                                                          (''b'', JNum (Fin 2))]\<rparr>\<rparr>"]
    by (auto simp: spec_clause_def one two)
  have c: "\<exists>q. searchQuery (exampleQuery None)
            (Some \<lparr>sp_pagination = None, sp_filters = Some \<lparr>flt_equal = JObj []\<rparr>\<rparr>) = Inr q
        \<and> q_filterByFormula q = JUndefined"
    using search_equality_filters [where oq = "exampleQuery None" and kvs = "[]"
        and sp = "\<lparr>sp_pagination = None, sp_filters = Some \<lparr>flt_equal = JObj []\<rparr>\<rparr>"]
    by (auto simp: exampleQuery_def)
  from a b c show ?thesis by blast
qed

text \<open>
  C6, as the code has it. With the bookmark \<open>b\<close> and the limit \<open>l\<close> (1 and 100 when
  absent) and \<open>page = max(b, 1)\<close>, \<open>read\<close> slices the collected rows over
  \<open>[offset, limit * page)\<close> with \<open>offset = page * limit - limit\<close>; for a positive limit
  that is the \<open>l\<close> rows from \<open>offset\<close> on, the interval \<open>[offset, offset + limit)\<close>.
\<close>

theorem read_window:
  assumes "cl_select cl (q_table q) (selectArgs q) = Inr pages"
    and "readBookmark q = Fin b" and "readLimit q = Fin l"
  shows "fst (read cl q) =
           Inr (jsSlice (map rec_fields (concat pages))
                  (Fin (max b 1 * l - l)) (Fin (l * max b 1)))
         \<and> (0 < l \<longrightarrow> fst (read cl q) =
               Inr (take (nat l) (drop (nat (max b 1 * l - l)) (map rec_fields (concat pages)))))
         \<and> ((case q_pagination q of None \<Rightarrow> True | Some p \<Rightarrow> nullish (pg_bookmark p))
              \<longrightarrow> b = 1)
         \<and> ((case q_pagination q of None \<Rightarrow> True | Some p \<Rightarrow> pg_limit p = None)
              \<longrightarrow> l = 100)"
proof -
  let ?rows = "map rec_fields (concat pages)"
  have page: "(if numLe (Fin b) (Fin 1) then Fin 1 else Fin b) = Fin (max b 1)"
    by (simp add: max_def)
  have r: "fst (read cl q) = Inr (jsSlice ?rows (Fin (max b 1 * l - l)) (Fin (l * max b 1)))"
    using assms
    by (simp add: read_def processRecords_def foldl_processPage Let_def page del: numLe.simps)
  have w: "0 < l \<Longrightarrow> jsSlice ?rows (Fin (max b 1 * l - l)) (Fin (l * max b 1))
      = take (nat l) (drop (nat (max b 1 * l - l)) ?rows)"
  proof -
    assume pos: "0 < l"
    have "0 \<le> (max b 1 - 1) * l" using pos by simp
    then have off: "0 \<le> max b 1 * l - l" by (simp add: algebra_simps)
    have "jsSlice ?rows (Fin (max b 1 * l - l)) (Fin ((max b 1 * l - l) + l))
        = take (nat l) (drop (nat (max b 1 * l - l)) ?rows)"
      by (rule jsSlice_window [OF pos off])
    then show ?thesis by (simp add: mult.commute)
  qed
  have bd: "(case q_pagination q of None \<Rightarrow> True | Some p \<Rightarrow> nullish (pg_bookmark p))
      \<Longrightarrow> b = 1"
    using assms(2) by (auto simp: readBookmark_def parseInt_one split: option.splits)
  have ld: "(case q_pagination q of None \<Rightarrow> True | Some p \<Rightarrow> pg_limit p = None)
      \<Longrightarrow> l = 100"
    using assms(3) by (auto simp: readLimit_def split: option.splits)
  show ?thesis using r w bd ld by simp
qed

text \<open>
  Six rows in two pages, bookmark 2 and limit 2: the third and the fourth row.
\<close>

theorem read_window_witness:
  "fst (read (exampleClient (Inr [[exampleRow 0, exampleRow 1, exampleRow 2],
                                   [exampleRow 3, exampleRow 4, exampleRow 5]]) (Inr JNull))
            (exampleQuery (Some \<lparr>pg_bookmark = JNum (Fin 2), pg_limit = Some (Fin 2),
                                 pg_sort = None\<rparr>)))
     = Inr [rec_fields (exampleRow 2), rec_fields (exampleRow 3)]"
proof -
  let ?q = "exampleQuery (Some \<lparr>pg_bookmark = JNum (Fin 2), pg_limit = Some (Fin 2),
                                 pg_sort = None\<rparr>)"
  have b: "readBookmark ?q = Fin 2"
    by (simp add: readBookmark_def exampleQuery_def parseInt_two)
  have l: "readLimit ?q = Fin 2"
    by (simp add: readLimit_def exampleQuery_def)
  show ?thesis
    using read_window [where q = ?q and b = 2 and l = 2
        and cl = "exampleClient (Inr [[exampleRow 0, exampleRow 1, exampleRow 2],
                                   [exampleRow 3, exampleRow 4, exampleRow 5]]) (Inr JNull)"
        and pages = "[[exampleRow 0, exampleRow 1, exampleRow 2],
                                   [exampleRow 3, exampleRow 4, exampleRow 5]]"]
    by (simp add: example_select b l jsSlice_def Let_def)
qed

text \<open>
  C6 as stated fails there: the interval \<open>[offset, offset + limit * page)\<close> is
  \<open>[2, 6)\<close> and holds four rows, and \<open>read\<close> returns two.
\<close>

theorem read_window_counterexample:
  "fst (read (exampleClient (Inr [[exampleRow 0, exampleRow 1, exampleRow 2],
                                   [exampleRow 3, exampleRow 4, exampleRow 5]]) (Inr JNull))
            (exampleQuery (Some \<lparr>pg_bookmark = JNum (Fin 2), pg_limit = Some (Fin 2),
                                 pg_sort = None\<rparr>)))
     = Inr [rec_fields (exampleRow 2), rec_fields (exampleRow 3)]
   \<and> spec_window (map rec_fields [exampleRow 0, exampleRow 1, exampleRow 2,
                                   exampleRow 3, exampleRow 4, exampleRow 5]) 2 2
     = [rec_fields (exampleRow 2), rec_fields (exampleRow 3),
        rec_fields (exampleRow 4), rec_fields (exampleRow 5)]
   \<and> fst (read (exampleClient (Inr [[exampleRow 0, exampleRow 1, exampleRow 2],
                                   [exampleRow 3, exampleRow 4, exampleRow 5]]) (Inr JNull))
            (exampleQuery (Some \<lparr>pg_bookmark = JNum (Fin 2), pg_limit = Some (Fin 2),
                                 pg_sort = None\<rparr>)))
     \<noteq> Inr (spec_window (map rec_fields [exampleRow 0, exampleRow 1, exampleRow 2,
                                   exampleRow 3, exampleRow 4, exampleRow 5]) 2 2)"
proof -
  let ?q = "exampleQuery (Some \<lparr>pg_bookmark = JNum (Fin 2), pg_limit = Some (Fin 2),
                                 pg_sort = None\<rparr>)"
  have b: "readBookmark ?q = Fin 2"
    by (simp add: readBookmark_def exampleQuery_def parseInt_two)
  have l: "readLimit ?q = Fin 2"
    by (simp add: readLimit_def exampleQuery_def)
  show ?thesis
    by (simp add: read_def example_select processRecords_def processPage_def b l jsSlice_def
        spec_window_def Let_def exampleRow_def)
qed

text \<open>
  C8. When the client operation of \<open>create\<close>, \<open>update\<close> or \<open>delete\<close> throws, the
  operation logs the error and throws the same error.
\<close>

theorem mutations_rethrow:
  "(cl_create cl (w_table q) (JArr [JObj [(''fields'', w_json q)]]) = Inl err
      \<longrightarrow> create cl q = (Inl err, [(''Error writing to airtable'', err)]))
   \<and> (cl_update cl (w_table q) (JArr [JObj [(''id'', w_id q), (''fields'', w_json q)]]) = Inl err
      \<longrightarrow> update cl q = (Inl err, [(''Error writing to airtable'', err)]))
   \<and> (cl_destroy cl (w_table q) (w_id q) = Inl err
      \<longrightarrow> delete cl q = (Inl err, [(''Error writing to airtable'', err)]))"
  by (simp add: create_def update_def delete_def writeError_def)

text \<open>
  A client whose writes are denied.
\<close>

theorem mutations_rethrow_witness:
  "create (exampleClient (Inr []) (Inl (Thrown (JStr ''denied''))))
          \<lparr>w_table = JStr ''Projects'', w_id = JStr ''rec1'', w_json = JObj []\<rparr>
     = (Inl (Thrown (JStr ''denied'')), [(''Error writing to airtable'', Thrown (JStr ''denied''))])
   \<and> update (exampleClient (Inr []) (Inl (Thrown (JStr ''denied''))))
          \<lparr>w_table = JStr ''Projects'', w_id = JStr ''rec1'', w_json = JObj []\<rparr>
     = (Inl (Thrown (JStr ''denied'')), [(''Error writing to airtable'', Thrown (JStr ''denied''))])
   \<and> delete (exampleClient (Inr []) (Inl (Thrown (JStr ''denied''))))
          \<lparr>w_table = JStr ''Projects'', w_id = JStr ''rec1'', w_json = JObj []\<rparr>
     = (Inl (Thrown (JStr ''denied'')), [(''Error writing to airtable'', Thrown (JStr ''denied''))])"
  using mutations_rethrow [where cl = "exampleClient (Inr []) (Inl (Thrown (JStr ''denied'')))"
      and q = "\<lparr>w_table = JStr ''Projects'', w_id = JStr ''rec1'', w_json = JObj []\<rparr>"
      and err = "Thrown (JStr ''denied'')"]
  by (simp add: exampleClient_def)

text \<open>
  C9. When the selection request throws, \<open>read\<close> returns the empty sequence.
\<close>

theorem read_request_throws:
  assumes "cl_select cl (q_table q) (selectArgs q) = Inl err"
  shows "fst (read cl q) = Inr []"
  using assms by (simp add: read_def)

text \<open>
  A client that rejects the parameters of the selection.
\<close>

theorem read_request_throws_witness:
  "fst (read (exampleClient (Inl (Thrown (JStr ''invalid parameters''))) (Inr JNull))
            (exampleQuery None)) = Inr []"
  using read_request_throws [where q = "exampleQuery None"
      and cl = "exampleClient (Inl (Thrown (JStr ''invalid parameters''))) (Inr JNull)"
      and err = "Thrown (JStr ''invalid parameters'')"]
  by (simp add: example_select)

section \<open>Properties of the grid table store\<close>

text \<open>
  C7. A subscriber exists only for a valid datasource, the one that installed it. When
  it fires and the table identifier bound to the current fetch instance differs from
  that datasource's, the fetch instance is left as it is; when the identifiers are
  equal there is a fetch instance, and the result is that instance after \<open>update\<close>
  with the new filter, or with the new sort.
\<close>

theorem stale_subscription_guard:
  assumes "s \<in> set (installSubscribers dsopt)"
  shows "\<exists>ds. dsopt = Some ds
          \<and> (boundTableId fetch \<noteq> td_tableId ds \<longrightarrow> fire upd s fetch v = Inr fetch)
          \<and> (boundTableId fetch = td_tableId ds \<longrightarrow>
               (\<exists>f. fetch = Some f
                  \<and> (s = FilterSubscriber ds \<longrightarrow>
                        fire upd s fetch v = Inr (Some (upd (FilterUpdate v) f)))
                  \<and> (s = SortSubscriber ds \<longrightarrow> \<not> nullish v \<longrightarrow>
                        fire upd s fetch v =
                          Inr (Some (upd (SortUpdate (orElse (getProp v ''order'')
                                                        (JStr ''ascending''))
                                                     (getProp v ''column'')) f)))))"
proof -
  from assms obtain ds where ds: "dsopt = Some ds" and valid: "isDatasourceValid (Some ds)"
      and s: "s = FilterSubscriber ds \<or> s = SortSubscriber ds"
    by (cases dsopt) (auto simp: installSubscribers_def split: if_splits)
  have bound: "boundTableId fetch = td_tableId ds \<Longrightarrow> \<exists>f. fetch = Some f"
    using valid
    by (cases fetch) (auto simp: isDatasourceValid_def boundTableId_def split: option.splits)
  have differ: "boundTableId fetch \<noteq> td_tableId ds \<Longrightarrow> fire upd s fetch v = Inr fetch"
    using s by (auto simp: onFilterChange_def onSortChange_def)
  have equal: "boundTableId fetch = td_tableId ds \<Longrightarrow>
      \<exists>f. fetch = Some f
        \<and> (s = FilterSubscriber ds \<longrightarrow> fire upd s fetch v = Inr (Some (upd (FilterUpdate v) f)))
        \<and> (s = SortSubscriber ds \<longrightarrow> \<not> nullish v \<longrightarrow>
              fire upd s fetch v =
                Inr (Some (upd (SortUpdate (orElse (getProp v ''order'') (JStr ''ascending''))
                                           (getProp v ''column'')) f)))"
    using bound by (auto simp: onFilterChange_def onSortChange_def readProp_def bind_def)
  from ds differ equal show ?thesis by blast
qed

text \<open>
  A subscriber of the table \<open>ta_old\<close> and one of \<open>ta_new\<close>, fired while the fetch
  instance is bound to \<open>ta_new\<close>.
\<close>

theorem stale_subscription_guard_witness:
  "fire recordUpdate (FilterSubscriber \<lparr>td_type = Some ''table'', td_tableId = Some ''ta_old''\<rparr>)
       (Some (exampleFetch ''ta_new'')) (JArr [JStr ''f'']) = Inr (Some (exampleFetch ''ta_new''))
   \<and> fire recordUpdate (SortSubscriber \<lparr>td_type = Some ''table'', td_tableId = Some ''ta_old''\<rparr>)
       (Some (exampleFetch ''ta_new'')) (JObj [(''column'', JStr ''name'')])
       = Inr (Some (exampleFetch ''ta_new''))
   \<and> fire recordUpdate (FilterSubscriber \<lparr>td_type = Some ''table'', td_tableId = Some ''ta_new''\<rparr>)
       (Some (exampleFetch ''ta_new'')) (JArr [JStr ''f''])
       = Inr (Some (recordUpdate (FilterUpdate (JArr [JStr ''f''])) (exampleFetch ''ta_new'')))"
proof -
  let ?old = "\<lparr>td_type = Some ''table'', td_tableId = Some ''ta_old''\<rparr>"
  let ?new = "\<lparr>td_type = Some ''table'', td_tableId = Some ''ta_new''\<rparr>"
  let ?fetch = "Some (exampleFetch ''ta_new'')"
  have inst: "\<And>t. installSubscribers (Some \<lparr>td_type = Some ''table'', td_tableId = Some (CHR ''t'' # t)\<rparr>)
      = [FilterSubscriber \<lparr>td_type = Some ''table'', td_tableId = Some (CHR ''t'' # t)\<rparr>,
         SortSubscriber \<lparr>td_type = Some ''table'', td_tableId = Some (CHR ''t'' # t)\<rparr>]"
    by (simp add: installSubscribers_def isDatasourceValid_def)
  have bound: "boundTableId ?fetch = Some ''ta_new''"
    by (simp add: boundTableId_def exampleFetch_def)
  have a: "fire recordUpdate (FilterSubscriber ?old) ?fetch (JArr [JStr ''f'']) = Inr ?fetch"
    using stale_subscription_guard [where s = "FilterSubscriber ?old" and dsopt = "Some ?old"
        and fetch = ?fetch and upd = recordUpdate and v = "JArr [JStr ''f'']"]
    by (simp add: inst bound)
  have b: "fire recordUpdate (SortSubscriber ?old) ?fetch (JObj [(''column'', JStr ''name'')])
      = Inr ?fetch"
    using stale_subscription_guard [where s = "SortSubscriber ?old" and dsopt = "Some ?old"
        and fetch = ?fetch and upd = recordUpdate and v = "JObj [(''column'', JStr ''name'')]"]
    by (simp add: inst bound)
  have c: "fire recordUpdate (FilterSubscriber ?new) ?fetch (JArr [JStr ''f''])
      = Inr (Some (recordUpdate (FilterUpdate (JArr [JStr ''f''])) (exampleFetch ''ta_new'')))"
    using stale_subscription_guard [where s = "FilterSubscriber ?new" and dsopt = "Some ?new"
        and fetch = ?fetch and upd = recordUpdate and v = "JArr [JStr ''f'']"]
    by (simp add: inst bound)
  from a b c show ?thesis by simp
qed

end
